theory Spec2Isabelle
  imports Main "HOL-Library.Word" "HOL-Library.Product_Lexorder" "HOL-Library.Multiset"
begin

unbundle bit_operations_syntax

section \<open>Bytes, buffers and text\<close>

text \<open>
  A Node \<open>Buffer\<close> is a sequence of bytes; a byte is an 8-bit word. JavaScript strings are
  modelled as \<open>string\<close>; every string the program builds itself is ASCII apart from the
  four \<open>0xFF\<close> characters of the document header.
\<close>

type_synonym byte = "8 word"
type_synonym buffer = "byte list"

text \<open>\<open>Buffer.from(s, 'binary')\<close>: one byte per character, its code modulo 256.\<close>

definition binary :: "string \<Rightarrow> buffer" where
  "binary s = map (\<lambda>c. of_nat (of_char c)) s"

definition nl :: char where
  "nl = CHR 0x0A"

text \<open>\<open>Number.prototype.toString()\<close> on a non-negative integer: its decimal digits.\<close>

definition digit :: "nat \<Rightarrow> char" where
  "digit d = ''0123456789'' ! d"

fun dec :: "nat \<Rightarrow> string" where
  "dec n = (if n < 10 then [digit n] else dec (n div 10) @ [digit (n mod 10)])"

declare dec.simps [simp del]

text \<open>\<open>String.prototype.padStart(n, c)\<close> with a one-character filler.\<close>

definition padStart :: "nat \<Rightarrow> char \<Rightarrow> string \<Rightarrow> string" where
  "padStart n c s = replicate (n - length s) c @ s"

text \<open>\<open>Array.prototype.join(sep)\<close>.\<close>

fun join :: "string \<Rightarrow> string list \<Rightarrow> string" where
  "join sep [] = []"
| "join sep [x] = x"
| "join sep (x # y # ys) = x @ sep @ join sep (y # ys)"

section \<open>Errors\<close>

text \<open>One constructor for every \<open>throw\<close> of the program and for every failing library call.\<close>

datatype error =
    XrefOffsetInvalid
  | BadSignature
  | BadChunkLength
  | MissingChunks
  | UnsupportedBitDepth nat
  | InterlacedUnsupported
  | UnsupportedColorType nat
  | BadDataLength nat nat
  | UnsupportedFilter "nat option"
  | BufferRefError nat
  | RangeError
  | ZlibError
  | IoError string
  | EmptyInput string

section \<open>The document encoder: \<open>PdfBuilder\<close>\<close>

text \<open>
  The builder's only field is the array \<open>objects\<close>. A JavaScript array may have holes
  (an assignment beyond its end leaves the skipped slots empty), so a slot is an optional
  body.
\<close>

record PdfBuilder =
  objects :: "buffer option list"

definition newPdfBuilder :: PdfBuilder where
  "newPdfBuilder = \<lparr>objects = []\<rparr>"

text \<open>\<open>addObject\<close> pushes the body and returns the new length of the array.\<close>

definition addObject :: "PdfBuilder \<Rightarrow> buffer \<Rightarrow> PdfBuilder \<times> nat" where
  "addObject b body =
     (let objs = objects b @ [Some body] in (b\<lparr>objects := objs\<rparr>, length objs))"

text \<open>
  \<open>setObject\<close> assigns \<open>objects[objectId - 1]\<close>. Inside the array it replaces the slot; at
  or beyond the end the array grows, the slots in between staying empty; with
  \<open>objectId = 0\<close> the assignment goes to the property \<open>-1\<close>, which is not an element of
  the array.
\<close>

definition setObject :: "PdfBuilder \<Rightarrow> nat \<Rightarrow> buffer \<Rightarrow> PdfBuilder" where
  "setObject b objectId body =
     (if objectId = 0 then b
      else let i = objectId - 1; objs = objects b in
        if i < length objs then b\<lparr>objects := objs[i := Some body]\<rparr>
        else b\<lparr>objects := objs @ replicate (i - length objs) None @ [Some body]\<rparr>)"

definition addRawObject :: "PdfBuilder \<Rightarrow> string \<Rightarrow> PdfBuilder \<times> nat" where
  "addRawObject b raw = addObject b (binary raw)"

definition addPlaceholderObject :: "PdfBuilder \<Rightarrow> PdfBuilder \<times> nat" where
  "addPlaceholderObject b = addObject b (binary ''<< >>'')"

definition addStreamObject :: "PdfBuilder \<Rightarrow> string \<Rightarrow> buffer \<Rightarrow> PdfBuilder \<times> nat" where
  "addStreamObject b dict data =
     (let header = binary (dict @ [nl] @ ''stream'' @ [nl]);
          footer = binary ([nl] @ ''endstream'')
      in addObject b (header @ data @ footer))"

text \<open>The fixed header of \<open>build\<close>: fifteen bytes.\<close>

definition pdfHeader :: buffer where
  "pdfHeader = binary (''%PDF-1.4'' @ [nl] @ ''%'' @ replicate 4 (CHR 0xFF) @ [nl])"

text \<open>The block emitted for the object at array index \<open>index\<close>.\<close>

definition objBlock :: "nat \<Rightarrow> buffer \<Rightarrow> buffer" where
  "objBlock index body =
     (let objHeader = binary (dec (index + 1) @ '' 0 obj'' @ [nl]);
          objFooter = binary ([nl] @ ''endobj'' @ [nl])
      in objHeader @ body @ objFooter)"

text \<open>
  The state of the \<open>forEach\<close> loop of \<open>build\<close>: the chunks pushed so far, the offset table
  and the running offset. \<open>forEach\<close> does not visit holes.
\<close>

record buildState =
  chunks :: "buffer list"
  offsets :: "nat list"
  offset :: nat

fun emitObjects :: "nat \<Rightarrow> buffer option list \<Rightarrow> buildState \<Rightarrow> buildState" where
  "emitObjects index [] st = st"
| "emitObjects index (None # rest) st = emitObjects (index + 1) rest st"
| "emitObjects index (Some body # rest) st =
     (let blk = objBlock index body
      in emitObjects (index + 1) rest
           \<lparr>chunks = chunks st @ [blk],
            offsets = offsets st @ [offset st],
            offset = offset st + length blk\<rparr>)"

text \<open>
  The loop over \<open>offsets\<close> from index 1: an undefined entry throws, a defined one gives
  the row.
\<close>

definition xrefRow :: "nat \<Rightarrow> string" where
  "xrefRow currentOffset = padStart 10 (CHR ''0'') (dec currentOffset) @ '' 00000 n ''"

fun xrefLoop :: "nat list \<Rightarrow> nat list \<Rightarrow> string list \<Rightarrow> error + string list" where
  "xrefLoop offs [] rows = Inr rows"
| "xrefLoop offs (i # is) rows =
     (if i < length offs then xrefLoop offs is (rows @ [xrefRow (offs ! i)])
      else Inl XrefOffsetInvalid)"

definition build :: "PdfBuilder \<Rightarrow> nat \<Rightarrow> error + buffer" where
  "build b rootObjectId =
     (let st = emitObjects 0 (objects b)
                 \<lparr>chunks = [pdfHeader], offsets = [0], offset = length pdfHeader\<rparr>;
          xrefStart = offset st
      in case xrefLoop (offsets st) [1..<length (offsets st)] [''0000000000 65535 f ''] of
           Inl e \<Rightarrow> Inl e
         | Inr xrefRows \<Rightarrow>
             let xref = ''xref'' @ [nl] @ ''0 '' @ dec (length (objects b) + 1) @ [nl]
                        @ join [nl] xrefRows @ [nl];
                 trailer = ''trailer'' @ [nl] @ ''<< /Size '' @ dec (length (objects b) + 1)
                        @ '' /Root '' @ dec rootObjectId @ '' 0 R >>'' @ [nl]
                        @ ''startxref'' @ [nl] @ dec xrefStart @ [nl] @ ''%%EOF'' @ [nl]
             in Inr (concat (chunks st @ [binary (xref @ trailer)])))"



subsection \<open>Reference layout of the serialized document\<close>

text \<open>
  The layout the serialization is compared with: the header, then one block per body, then the
  cross-reference text. \<open>objectPosition bodies i\<close> is the number of bytes that precede block
  \<open>i\<close> in that layout (for \<open>i = length bodies\<close>, that precede the cross-reference text).
  \<open>blocksFrom\<close> and \<open>startsFrom\<close> describe the loop state of \<open>emitObjects\<close>.
\<close>

fun blocksFrom :: "nat \<Rightarrow> buffer list \<Rightarrow> buffer list" where
  "blocksFrom k [] = []"
| "blocksFrom k (x # xs) = objBlock k x # blocksFrom (k + 1) xs"

fun startsFrom :: "nat \<Rightarrow> buffer list \<Rightarrow> nat list" where
  "startsFrom off [] = []"
| "startsFrom off (x # xs) = off # startsFrom (off + length x) xs"

definition documentBlocks :: "buffer list \<Rightarrow> buffer list" where
  "documentBlocks bodies =
     map (\<lambda>i. binary (dec (i + 1) @ '' 0 obj'' @ [nl]) @ bodies ! i @ binary ([nl] @ ''endobj'' @ [nl]))
       [0..<length bodies]"

definition objectPosition :: "buffer list \<Rightarrow> nat \<Rightarrow> nat" where
  "objectPosition bodies i = length pdfHeader + length (concat (take i (documentBlocks bodies)))"


definition xrefSectionSpec :: "buffer list \<Rightarrow> nat \<Rightarrow> string" where
  "xrefSectionSpec bodies root =
     (let n = length bodies in
      ''xref'' @ [nl] @ ''0 '' @ dec (n + 1) @ [nl]
      @ join [nl] (''0000000000 65535 f ''
          # map (\<lambda>i. padStart 10 (CHR ''0'') (dec (objectPosition bodies i)) @ '' 00000 n '') [0..<n])
      @ [nl]
      @ ''trailer'' @ [nl] @ ''<< /Size '' @ dec (n + 1) @ '' /Root '' @ dec root @ '' 0 R >>'' @ [nl]
      @ ''startxref'' @ [nl] @ dec (objectPosition bodies n) @ [nl] @ ''%%EOF'' @ [nl])"


subsection \<open>Call sequences on a builder\<close>

text \<open>
  A sequence of calls on one builder, run in order; \<open>runCalls\<close> collects the identifiers the
  registering calls return. \<open>overwritesRegistered n cs\<close> holds when every \<open>setObject\<close> of
  \<open>cs\<close> names an identifier registered before it, \<open>n\<close> objects being registered at the start.
\<close>

datatype builderCall =
    CallAddObject buffer
  | CallAddRawObject string
  | CallAddPlaceholderObject
  | CallAddStreamObject string buffer
  | CallSetObject nat buffer

fun isRegistration :: "builderCall \<Rightarrow> bool" where
  "isRegistration (CallSetObject objectId body) = False"
| "isRegistration c = True"

fun runCalls :: "PdfBuilder \<Rightarrow> builderCall list \<Rightarrow> PdfBuilder \<times> nat list" where
  "runCalls b [] = (b, [])"
| "runCalls b (CallAddObject body # cs) =
     (let (b1, k) = addObject b body; (b2, ks) = runCalls b1 cs in (b2, k # ks))"
| "runCalls b (CallAddRawObject raw # cs) =
     (let (b1, k) = addRawObject b raw; (b2, ks) = runCalls b1 cs in (b2, k # ks))"
| "runCalls b (CallAddPlaceholderObject # cs) =
     (let (b1, k) = addPlaceholderObject b; (b2, ks) = runCalls b1 cs in (b2, k # ks))"
| "runCalls b (CallAddStreamObject dict data # cs) =
     (let (b1, k) = addStreamObject b dict data; (b2, ks) = runCalls b1 cs in (b2, k # ks))"
| "runCalls b (CallSetObject objectId body # cs) = runCalls (setObject b objectId body) cs"

fun overwritesRegistered :: "nat \<Rightarrow> builderCall list \<Rightarrow> bool" where
  "overwritesRegistered n [] = True"
| "overwritesRegistered n (CallSetObject objectId body # cs) =
     (1 \<le> objectId \<and> objectId \<le> n \<and> overwritesRegistered n cs)"
| "overwritesRegistered n (c # cs) = overwritesRegistered (n + 1) cs"

text \<open>
  The table of bodies a sequence of calls should leave behind, by identifier: a registering
  call puts its body after the last one, \<open>setObject\<close> replaces the body at its identifier.
  \<open>callBody\<close> is the body a call stores.
\<close>

fun callBody :: "builderCall \<Rightarrow> buffer" where
  "callBody (CallAddObject body) = body"
| "callBody (CallAddRawObject raw) = binary raw"
| "callBody CallAddPlaceholderObject = binary ''<< >>''"
| "callBody (CallAddStreamObject dict bytes) =
     binary (dict @ [nl] @ ''stream'' @ [nl]) @ bytes @ binary ([nl] @ ''endstream'')"
| "callBody (CallSetObject objectId body) = body"

fun tableAfter :: "buffer list \<Rightarrow> builderCall list \<Rightarrow> buffer list" where
  "tableAfter t [] = t"
| "tableAfter t (CallSetObject objectId body # cs) = tableAfter (t[objectId - 1 := body]) cs"
| "tableAfter t (c # cs) = tableAfter (t @ [callBody c]) cs"


section \<open>The runtime the program calls into\<close>

text \<open>
  Everything the program obtains from Node rather than computes itself is a field of the
  runtime: the file system (\<open>fs.readdir\<close>, \<open>fs.readFile\<close>, \<open>fs.mkdir\<close>, \<open>fs.writeFile\<close>),
  zlib (\<open>inflateSync\<close>, \<open>deflateSync\<close>), the collation of \<open>String.localeCompare\<close>, the
  \<open>path\<close> functions on directories, and the floating-point text of \<open>toFixed(4)\<close>. The
  theorems hold for every runtime unless they state a hypothesis on it.
\<close>

text \<open>An entry of \<open>readdir(dir, {withFileTypes: true})\<close>: its name and \<open>isFile()\<close>.\<close>

datatype Dirent = Dirent (entryName: string) (entryIsFile: bool)

text \<open>
  The lengths in points that the program prints with \<open>toFixed(4)\<close>. They come from
  floating-point products with \<open>72 / 25.4\<close>; the model keeps them symbolic, and the runtime
  field \<open>toFixed4\<close> gives their text.
\<close>

datatype measure =
    CellWidthPt | CellHeightPt | PageWidthPt | PageHeightPt
  | CellXPt nat | CellYPt nat
  | CenterXPt | CenterYPt | LeftPt | RightPt | TopYPtFromBottom | BottomYPtFromBottom

record runtime =
  readdir :: "string \<Rightarrow> error + Dirent list"
  readFile :: "string \<Rightarrow> error + buffer"
  mkdir :: "string \<Rightarrow> error option"
  writeFile :: "string \<Rightarrow> buffer \<Rightarrow> error option"
  inflateSync :: "buffer \<Rightarrow> error + buffer"
  deflateSync :: "buffer \<Rightarrow> buffer"
  localeCompare :: "string \<Rightarrow> string \<Rightarrow> int"
  pathResolve :: "string \<Rightarrow> string"
  pathJoin :: "string \<Rightarrow> string \<Rightarrow> string"
  pathDirname :: "string \<Rightarrow> string"
  toFixed4 :: "measure \<Rightarrow> string"

section \<open>The tile catalog\<close>

definition MAX_SAFE_INTEGER :: int where
  "MAX_SAFE_INTEGER = 9007199254740991"

definition SUIT_ORDER :: "char \<rightharpoonup> int" where
  "SUIT_ORDER = [CHR ''m'' \<mapsto> 0, CHR ''p'' \<mapsto> 1, CHR ''s'' \<mapsto> 2, CHR ''z'' \<mapsto> 3]"

text \<open>
  JavaScript numbers, as far as the catalog meets them: the integers (a rank is a
  non-negative integer that a double represents), the two infinities and \<open>NaN\<close>. \<open>sort\<close>
  looks at the sign of what the comparator returns.
\<close>

datatype jsNumber = Num int | PlusInfinity | MinusInfinity | NaN

fun isNegative :: "jsNumber \<Rightarrow> bool" where
  "isNegative (Num i) = (i < 0)"
| "isNegative MinusInfinity = True"
| "isNegative PlusInfinity = False"
| "isNegative NaN = False"

fun isPositive :: "jsNumber \<Rightarrow> bool" where
  "isPositive (Num i) = (0 < i)"
| "isPositive PlusInfinity = True"
| "isPositive MinusInfinity = False"
| "isPositive NaN = False"

text \<open>
  The double nearest to a natural number, ties going to the even significand; \<open>None\<close>
  when the rounded value reaches \<open>2^1024\<close>, where the double is \<open>Infinity\<close>. Below \<open>2^53\<close>
  every natural number is a double. \<open>bitLength n\<close> is the number of binary digits of \<open>n\<close>.
\<close>

fun bitLength :: "nat \<Rightarrow> nat" where
  "bitLength n = (if n = 0 then 0 else Suc (bitLength (n div 2)))"

declare bitLength.simps [simp del]

definition toDouble :: "nat \<Rightarrow> nat option" where
  "toDouble n =
     (if n < 2 ^ 53 then Some n
      else let e = bitLength n - 53;
               q = n div 2 ^ e;
               r = n mod 2 ^ e;
               q' = (if 2 ^ (e - 1) < r \<or> (r = 2 ^ (e - 1) \<and> odd q) then q + 1 else q)
           in if 2 ^ 1024 \<le> q' * 2 ^ e then None else Some (q' * 2 ^ e))"

text \<open>
  \<open>a - b\<close> on two numbers: between integers the exact difference rounded to a double,
  otherwise as the arithmetic of doubles has it.
\<close>

fun numberMinus :: "jsNumber \<Rightarrow> jsNumber \<Rightarrow> jsNumber" where
  "numberMinus (Num x) (Num y) =
     (if y \<le> x
      then (case toDouble (nat (x - y)) of Some d \<Rightarrow> Num (int d) | None \<Rightarrow> PlusInfinity)
      else (case toDouble (nat (y - x)) of Some d \<Rightarrow> Num (- int d) | None \<Rightarrow> MinusInfinity))"
| "numberMinus NaN b = NaN"
| "numberMinus a NaN = NaN"
| "numberMinus PlusInfinity PlusInfinity = NaN"
| "numberMinus MinusInfinity MinusInfinity = NaN"
| "numberMinus PlusInfinity b = PlusInfinity"
| "numberMinus MinusInfinity b = MinusInfinity"
| "numberMinus (Num x) PlusInfinity = MinusInfinity"
| "numberMinus (Num x) MinusInfinity = PlusInfinity"

definition HONOR_PRINT_ORDER :: "jsNumber \<rightharpoonup> int" where
  "HONOR_PRINT_ORDER =
     [Num 5 \<mapsto> 0, Num 6 \<mapsto> 1, Num 7 \<mapsto> 2, Num 1 \<mapsto> 3, Num 2 \<mapsto> 4, Num 3 \<mapsto> 5, Num 4 \<mapsto> 6]"

text \<open>\<open>table[key] ?? Number.MAX_SAFE_INTEGER\<close>.\<close>

definition orMax :: "int option \<Rightarrow> int" where
  "orMax v = (case v of Some r \<Rightarrow> r | None \<Rightarrow> MAX_SAFE_INTEGER)"

record ParsedTileFile =
  filePath :: string
  label :: string

text \<open>The value \<open>parseTileName\<close> returns when the label matches.\<close>

record TileName =
  number :: jsNumber
  suit :: char

text \<open>\<open>\d\<close> matches the ten ASCII digits.\<close>

definition isDigit :: "char \<Rightarrow> bool" where
  "isDigit c = (c \<in> set ''0123456789'')"

definition digitValue :: "char \<Rightarrow> nat" where
  "digitValue c = length (takeWhile (\<lambda>d. d \<noteq> c) ''0123456789'')"

text \<open>
  \<open>Number(numberPart)\<close> on a string of digits: the double nearest to its decimal value,
  \<open>Infinity\<close> from \<open>2^1024 - 2^970\<close> on.
\<close>

definition decimalValue :: "string \<Rightarrow> nat" where
  "decimalValue ds = foldl (\<lambda>n c. 10 * n + digitValue c) 0 ds"

definition Number :: "string \<Rightarrow> jsNumber" where
  "Number ds = (case toDouble (decimalValue ds) of Some d \<Rightarrow> Num (int d) | None \<Rightarrow> PlusInfinity)"

text \<open>\<open>toLowerCase\<close> of one character, on ASCII letters.\<close>

definition toLowerCase :: "char \<Rightarrow> char" where
  "toLowerCase c =
     (case map_of (zip ''ABCDEFGHIJKLMNOPQRSTUVWXYZ'' ''abcdefghijklmnopqrstuvwxyz'') c of
        Some l \<Rightarrow> l | None \<Rightarrow> c)"

text \<open>
  \<open>/^(\d+)([mpsz])$/i.exec(label)\<close>: the label is one or more digits followed by exactly
  one of \<open>m p s z\<close> in either case; group 1 is everything but the last character, group 2
  the last character. The test after the match is the source's.
\<close>

definition tileNameMatch :: "string \<Rightarrow> (string \<times> char) option" where
  "tileNameMatch lbl =
     (if lbl \<noteq> [] \<and> butlast lbl \<noteq> [] \<and> list_all isDigit (butlast lbl)
         \<and> last lbl \<in> set ''mpszMPSZ''
      then Some (butlast lbl, last lbl) else None)"

definition parseTileName :: "string \<Rightarrow> TileName option" where
  "parseTileName lbl =
     (case tileNameMatch lbl of
        None \<Rightarrow> None
      | Some (numberPart, suitChar) \<Rightarrow>
          let suitPart = toLowerCase suitChar in
          if numberPart = [] \<or> suitPart \<notin> dom SUIT_ORDER then None
          else Some \<lparr>number = Number numberPart, suit = suitPart\<rparr>)"

text \<open>The comparator passed to \<open>sort\<close> in \<open>sortTileFiles\<close>.\<close>

definition compareTiles :: "runtime \<Rightarrow> ParsedTileFile \<Rightarrow> ParsedTileFile \<Rightarrow> jsNumber" where
  "compareTiles rt a b =
     (case (parseTileName (label a), parseTileName (label b)) of
        (Some pa, Some pb) \<Rightarrow>
          if suit pa \<noteq> suit pb
          then Num (orMax (SUIT_ORDER (suit pa)) - orMax (SUIT_ORDER (suit pb)))
          else if suit pa = CHR ''z'' \<and> suit pb = CHR ''z''
                  \<and> orMax (HONOR_PRINT_ORDER (number pa)) \<noteq> orMax (HONOR_PRINT_ORDER (number pb))
          then Num (orMax (HONOR_PRINT_ORDER (number pa)) - orMax (HONOR_PRINT_ORDER (number pb)))
          else if number pa \<noteq> number pb then numberMinus (number pa) (number pb)
          else Num (localeCompare rt (label a) (label b))
      | (Some pa, None) \<Rightarrow> Num (- 1)
      | (None, Some pb) \<Rightarrow> Num 1
      | (None, None) \<Rightarrow> Num (localeCompare rt (label a) (label b)))"

text \<open>
  \<open>Array.prototype.sort\<close> with a comparator is stable and puts \<open>x\<close> after \<open>y\<close> only when
  the comparator is positive on them; the model is insertion sort, which keeps elements
  that do not compare positive in their original order.
\<close>

fun insertSorted :: "('a \<Rightarrow> 'a \<Rightarrow> jsNumber) \<Rightarrow> 'a \<Rightarrow> 'a list \<Rightarrow> 'a list" where
  "insertSorted cmp x [] = [x]"
| "insertSorted cmp x (y # ys) =
     (if isPositive (cmp x y) then y # insertSorted cmp x ys else x # y # ys)"

definition arraySort :: "('a \<Rightarrow> 'a \<Rightarrow> jsNumber) \<Rightarrow> 'a list \<Rightarrow> 'a list" where
  "arraySort cmp xs = foldr (insertSorted cmp) xs []"

definition sortTileFiles :: "runtime \<Rightarrow> ParsedTileFile list \<Rightarrow> ParsedTileFile list" where
  "sortTileFiles rt files = arraySort (compareTiles rt) files"

text \<open>\<open>/\.png$/i.test(name)\<close>.\<close>

definition isPngName :: "string \<Rightarrow> bool" where
  "isPngName nm =
     (4 \<le> length nm \<and> map toLowerCase (drop (length nm - 4) nm) = ''.png'')"

text \<open>
  \<open>path.extname\<close> and \<open>path.basename\<close> of Node's POSIX \<open>path\<close> module, on a name without
  \<open>/\<close> (a directory entry). The extension runs from the last dot to the end; there is none
  when the name has no dot, when its only dot is its first character, or when the name is
  \<open>..\<close>. \<open>basename(name, ext)\<close> removes \<open>ext\<close> from the end of the name when it is there.
\<close>

definition lastDot :: "string \<Rightarrow> nat option" where
  "lastDot nm =
     (if CHR ''.'' \<in> set nm
      then Some (length nm - 1 - length (takeWhile (\<lambda>c. c \<noteq> CHR ''.'') (rev nm)))
      else None)"

definition extname :: "string \<Rightarrow> string" where
  "extname nm =
     (case lastDot nm of
        None \<Rightarrow> []
      | Some startDot \<Rightarrow>
          if startDot = 0 then []
          else if hd nm = CHR ''.'' \<and> startDot = length nm - 1 \<and> startDot = 1 then []
          else drop startDot nm)"

definition basename :: "string \<Rightarrow> string \<Rightarrow> string" where
  "basename nm ext =
     (if ext \<noteq> [] \<and> length ext \<le> length nm
      then (if ext = nm then []
            else if drop (length nm - length ext) nm = ext
            then take (length nm - length ext) nm else nm)
      else nm)"

definition findPngFiles :: "runtime \<Rightarrow> string \<Rightarrow> error + ParsedTileFile list" where
  "findPngFiles rt inputDir =
     (case readdir rt inputDir of
        Inl e \<Rightarrow> Inl e
      | Inr entries \<Rightarrow>
          let pngs =
            filter (\<lambda>entry. parseTileName (label entry) \<noteq> None)
              (map (\<lambda>entry. \<lparr>filePath = pathJoin rt inputDir (entryName entry),
                             label = basename (entryName entry) (extname (entryName entry))\<rparr>)
                 (filter (\<lambda>entry. entryIsFile entry \<and> isPngName (entryName entry)) entries))
          in Inr (sortTileFiles rt pngs))"


subsection \<open>The catalog order as the specification words it\<close>

text \<open>
  What the comparator needs of \<open>localeCompare\<close>: a consistent three-way comparison, zero
  on equal strings, antisymmetric and transitive. It may be zero on different strings.
\<close>

definition consistentCollation :: "(string \<Rightarrow> string \<Rightarrow> int) \<Rightarrow> bool" where
  "consistentCollation lc =
     ((\<forall>a. lc a a = 0)
      \<and> (\<forall>a b. (lc a b < 0) = (0 < lc b a))
      \<and> (\<forall>a b c. lc a b \<le> 0 \<longrightarrow> lc b c \<le> 0 \<longrightarrow> lc a c \<le> 0))"

text \<open>One such comparison: lexical by character code.\<close>

fun codeUnitCompare :: "string \<Rightarrow> string \<Rightarrow> int" where
  "codeUnitCompare [] [] = 0"
| "codeUnitCompare [] (y # ys) = - 1"
| "codeUnitCompare (x # xs) [] = 1"
| "codeUnitCompare (x # xs) (y # ys) =
     (if (of_char x :: nat) < of_char y then - 1
      else if (of_char y :: nat) < of_char x then 1
      else codeUnitCompare xs ys)"

text \<open>
  The sort key: the position of the suit in \<open>m, p, s, z\<close> (4 for a label that does not
  parse); for the suit \<open>z\<close> the position of the rank in \<open>5, 6, 7, 1, 2, 3, 4\<close> (7 for a rank
  outside that list); the rank, as the number \<open>parseTileName\<close> gives, an infinite rank
  after every finite one. Keys are compared lexicographically, and equal keys by the
  collation of the labels.
\<close>

definition suitIndex :: "char \<Rightarrow> nat" where
  "suitIndex c = length (takeWhile (\<lambda>d. d \<noteq> c) ''mpsz'')"

definition honorPosition :: "jsNumber \<Rightarrow> nat" where
  "honorPosition n =
     length (takeWhile (\<lambda>k. k \<noteq> n) [Num 5, Num 6, Num 7, Num 1, Num 2, Num 3, Num 4])"

text \<open>The numbers a rank can be: a natural number or \<open>Infinity\<close>.\<close>

definition rankValue :: "jsNumber \<Rightarrow> bool" where
  "rankValue n = ((\<exists>d. n = Num (int d)) \<or> n = PlusInfinity)"

fun rankKey :: "jsNumber \<Rightarrow> nat \<times> nat" where
  "rankKey (Num i) = (0, nat i)"
| "rankKey n = (1, 0)"

definition catalogKey :: "ParsedTileFile \<Rightarrow> nat \<times> nat \<times> nat \<times> nat" where
  "catalogKey a =
     (case parseTileName (label a) of
        None \<Rightarrow> (4, 0, 0, 0)
      | Some p \<Rightarrow>
          (suitIndex (suit p),
           if suit p = CHR ''z'' then honorPosition (number p) else 0,
           rankKey (number p)))"

definition catalogBefore :: "(string \<Rightarrow> string \<Rightarrow> int) \<Rightarrow> ParsedTileFile \<Rightarrow> ParsedTileFile \<Rightarrow> bool" where
  "catalogBefore lc a b =
     (catalogKey a < catalogKey b \<or> catalogKey a = catalogKey b \<and> lc (label a) (label b) < 0)"

text \<open>
  The range the specification gives for the rank of an identity: 1 to 9 in the suits
  \<open>m\<close>, \<open>p\<close>, \<open>s\<close> and 1 to 7 in the suit \<open>z\<close>.
\<close>

definition identityInRange :: "TileName \<Rightarrow> bool" where
  "identityInRange t =
     (if suit t = CHR ''z'' then number t \<in> Num ` {1..7} else number t \<in> Num ` {1..9})"


section \<open>The raster decoder\<close>

definition PNG_SIGNATURE :: buffer where
  "PNG_SIGNATURE = [0x89, 0x50, 0x4e, 0x47, 0x0d, 0x0a, 0x1a, 0x0a]"

text \<open>Sequencing of computations that may throw.\<close>

definition bindE :: "error + 'a \<Rightarrow> ('a \<Rightarrow> error + 'b) \<Rightarrow> error + 'b" where
  "bindE r f = (case r of Inl e \<Rightarrow> Inl e | Inr v \<Rightarrow> f v)"

text \<open>A \<open>for\<close> loop over a list of indices whose body may throw.\<close>

fun foldE :: "('a \<Rightarrow> 's \<Rightarrow> error + 's) \<Rightarrow> 'a list \<Rightarrow> 's \<Rightarrow> error + 's" where
  "foldE f [] s = Inr s"
| "foldE f (x # xs) s = (case f x s of Inl e \<Rightarrow> Inl e | Inr s' \<Rightarrow> foldE f xs s')"

text \<open>\<open>buffer[i]\<close>: the byte as a number, or \<open>undefined\<close> outside the buffer.\<close>

definition byteAt :: "buffer \<Rightarrow> nat \<Rightarrow> nat option" where
  "byteAt buf i = (if i < length buf then Some (unat (buf ! i)) else None)"

text \<open>\<open>v ?? 0\<close>.\<close>

definition orZero :: "nat option \<Rightarrow> nat" where
  "orZero v = (case v of Some n \<Rightarrow> n | None \<Rightarrow> 0)"

text \<open>\<open>buffer.subarray(start, end)\<close> for \<open>start \<le> end\<close>.\<close>

definition subarray :: "buffer \<Rightarrow> nat \<Rightarrow> nat \<Rightarrow> buffer" where
  "subarray buf start end = take (end - start) (drop start buf)"

text \<open>\<open>buffer.readUInt32BE(offset)\<close> throws a range error unless four bytes are there.\<close>

definition readUInt32BE :: "buffer \<Rightarrow> nat \<Rightarrow> error + nat" where
  "readUInt32BE buf off =
     (if off + 4 \<le> length buf
      then Inr (unat (buf ! off) * 2 ^ 24 + unat (buf ! (off + 1)) * 2 ^ 16
                + unat (buf ! (off + 2)) * 2 ^ 8 + unat (buf ! (off + 3)))
      else Inl RangeError)"

definition readByte :: "buffer \<Rightarrow> nat \<Rightarrow> error + nat" where
  "readByte buf off = (case byteAt buf off of None \<Rightarrow> Inl (BufferRefError off) | Some v \<Rightarrow> Inr v)"

text \<open>
  \<open>buffer.toString('ascii', start, end)\<close>: Node decodes \<open>'ascii'\<close> by clearing the highest
  bit of every byte. The string is kept as its character codes, to be compared with the
  codes of a literal.
\<close>

definition toStringAscii :: "buffer \<Rightarrow> nat \<Rightarrow> nat \<Rightarrow> buffer" where
  "toStringAscii buf start end = map (\<lambda>b. b AND 0x7F) (subarray buf start end)"

definition paethPredictor :: "int \<Rightarrow> int \<Rightarrow> int \<Rightarrow> int" where
  "paethPredictor a b c =
     (let p = a + b - c; pa = \<bar>p - a\<bar>; pb = \<bar>p - b\<bar>; pc = \<bar>p - c\<bar>
      in if pa \<le> pb \<and> pa \<le> pc then a else if pb \<le> pc then b else c)"

text \<open>
  The body of the inner loop of \<open>unfilterScanlines\<close>: the reconstructed value of the sample
  at column \<open>x\<close> of row \<open>row\<close>, or the error for a selector above 4. The selector is
  \<open>inflated[rowIn]\<close>, possibly \<open>undefined\<close>.
\<close>

definition unfilterSample ::
    "buffer \<Rightarrow> nat \<Rightarrow> nat \<Rightarrow> nat \<Rightarrow> nat \<Rightarrow> buffer \<Rightarrow> error + buffer" where
  "unfilterSample inflated stride bytesPerPixel row x raw =
     (let rowIn = row * (stride + 1);
          rowOut = row * stride;
          filter = byteAt inflated rowIn;
          current = byteAt inflated (rowIn + 1 + x);
          left = (if x \<ge> bytesPerPixel then byteAt raw (rowOut + x - bytesPerPixel) else Some 0);
          up = (if row > 0 then byteAt raw (rowOut - stride + x) else Some 0);
          upLeft = (if row > 0 \<and> x \<ge> bytesPerPixel
                    then byteAt raw (rowOut - stride + x - bytesPerPixel) else Some 0);
          currentValue = orZero current;
          leftValue = orZero left;
          upValue = orZero up;
          upLeftValue = orZero upLeft
      in if filter = Some 0 then Inr (raw[rowOut + x := of_nat currentValue])
         else if filter = Some 1
           then Inr (raw[rowOut + x := of_nat ((currentValue + leftValue) mod 256)])
         else if filter = Some 2
           then Inr (raw[rowOut + x := of_nat ((currentValue + upValue) mod 256)])
         else if filter = Some 3
           then Inr (raw[rowOut + x :=
                  of_nat ((currentValue + (leftValue + upValue) div 2) mod 256)])
         else if filter = Some 4
           then Inr (raw[rowOut + x :=
                  of_nat (nat ((int currentValue
                     + paethPredictor (int leftValue) (int upValue) (int upLeftValue)) mod 256))])
         else Inl (UnsupportedFilter filter))"

definition unfilterScanlines :: "buffer \<Rightarrow> nat \<Rightarrow> nat \<Rightarrow> nat \<Rightarrow> error + buffer" where
  "unfilterScanlines inflated w h bytesPerPixel =
     (let stride = w * bytesPerPixel;
          expected = h * (stride + 1)
      in if length inflated \<noteq> expected then Inl (BadDataLength expected (length inflated))
         else foldE (\<lambda>row raw.
                foldE (\<lambda>x raw. unfilterSample inflated stride bytesPerPixel row x raw)
                  [0..<stride] raw)
              [0..<h] (replicate (w * h * bytesPerPixel) 0))"

text \<open>The local variables of \<open>parsePng\<close> that the chunk loop assigns.\<close>

record chunkScan =
  ihdrWidth :: nat
  ihdrHeight :: nat
  ihdrBitDepth :: nat
  ihdrColorType :: nat
  ihdrInterlace :: nat
  idatChunks :: "buffer list"

definition initialScan :: chunkScan where
  "initialScan = \<lparr>ihdrWidth = 0, ihdrHeight = 0, ihdrBitDepth = 0, ihdrColorType = 0,
                  ihdrInterlace = 0, idatChunks = []\<rparr>"

text \<open>The five reads of the \<open>IHDR\<close> branch, in the source's order.\<close>

definition readHeader :: "buffer \<Rightarrow> chunkScan \<Rightarrow> error + chunkScan" where
  "readHeader chunkData st =
     bindE (readUInt32BE chunkData 0) (\<lambda>w.
     bindE (readUInt32BE chunkData 4) (\<lambda>h.
     bindE (readByte chunkData 8) (\<lambda>bd.
     bindE (readByte chunkData 9) (\<lambda>ct.
     bindE (readByte chunkData 12) (\<lambda>il.
       Inr (st\<lparr>ihdrWidth := w, ihdrHeight := h, ihdrBitDepth := bd,
                ihdrColorType := ct, ihdrInterlace := il\<rparr>))))))"

text \<open>The \<open>while\<close> loop of \<open>parsePng\<close>, from the offset \<open>off\<close>.\<close>

function scanChunks :: "buffer \<Rightarrow> nat \<Rightarrow> chunkScan \<Rightarrow> error + chunkScan" where
  "scanChunks buf off st =
     (if off + 8 \<le> length buf then
        (case readUInt32BE buf off of
           Inl e \<Rightarrow> Inl e
         | Inr len \<Rightarrow>
             if off + 8 + len + 4 > length buf then Inl BadChunkLength
             else if toStringAscii buf (off + 4) (off + 8) = binary ''IHDR'' then
               (case readHeader (subarray buf (off + 8) (off + 8 + len)) st of
                  Inl e \<Rightarrow> Inl e
                | Inr st' \<Rightarrow> scanChunks buf (off + 8 + len + 4) st')
             else if toStringAscii buf (off + 4) (off + 8) = binary ''IDAT'' then
               scanChunks buf (off + 8 + len + 4)
                 (st\<lparr>idatChunks := idatChunks st @ [subarray buf (off + 8) (off + 8 + len)]\<rparr>)
             else if toStringAscii buf (off + 4) (off + 8) = binary ''IEND'' then Inr st
             else scanChunks buf (off + 8 + len + 4) st)
      else Inr st)"
  by pat_completeness auto
termination
  by (relation "measure (\<lambda>(buf, off, st). length buf - off)") auto

declare scanChunks.simps [simp del]

record ParsedPng =
  width :: nat
  height :: nat
  bitDepth :: nat
  rgbDeflated :: buffer
  alphaDeflated :: "buffer option"

text \<open>
  The three pixel loops at the end of \<open>parsePng\<close>. The state is the pair of the \<open>rgb\<close> and
  \<open>alpha\<close> buffers; a store into a buffer keeps the low eight bits.
\<close>

definition grayPixel :: "buffer \<Rightarrow> nat \<Rightarrow> buffer \<Rightarrow> error + buffer" where
  "grayPixel raw i rgb =
     bindE (readByte raw i) (\<lambda>gray.
       Inr (rgb[i * 3 := of_nat gray, i * 3 + 1 := of_nat gray, i * 3 + 2 := of_nat gray]))"

definition grayAlphaPixel :: "buffer \<Rightarrow> nat \<Rightarrow> buffer \<times> buffer \<Rightarrow> error + buffer \<times> buffer" where
  "grayAlphaPixel raw i planes =
     bindE (readByte raw (i * 2)) (\<lambda>gray.
     bindE (readByte raw (i * 2 + 1)) (\<lambda>a.
       Inr ((fst planes)[i * 3 := of_nat gray, i * 3 + 1 := of_nat gray, i * 3 + 2 := of_nat gray],
            (snd planes)[i := of_nat a])))"

definition rgbaPixel :: "buffer \<Rightarrow> nat \<Rightarrow> buffer \<times> buffer \<Rightarrow> error + buffer \<times> buffer" where
  "rgbaPixel raw i planes =
     bindE (readByte raw (i * 4)) (\<lambda>r.
     bindE (readByte raw (i * 4 + 1)) (\<lambda>g.
     bindE (readByte raw (i * 4 + 2)) (\<lambda>bl.
     bindE (readByte raw (i * 4 + 3)) (\<lambda>a.
       Inr ((fst planes)[i * 3 := of_nat r, i * 3 + 1 := of_nat g, i * 3 + 2 := of_nat bl],
            (snd planes)[i := of_nat a])))))"

text \<open>\<open>parsePng\<close> after the chunk loop: the checks, zlib, the filters and the planes.\<close>

definition decodeScan :: "runtime \<Rightarrow> chunkScan \<Rightarrow> error + ParsedPng" where
  "decodeScan rt st =
     (let w = ihdrWidth st; h = ihdrHeight st; colorType = ihdrColorType st in
      if w = 0 \<or> h = 0 \<or> idatChunks st = [] then Inl MissingChunks
      else if ihdrBitDepth st \<noteq> 8 then Inl (UnsupportedBitDepth (ihdrBitDepth st))
      else if ihdrInterlace st \<noteq> 0 then Inl InterlacedUnsupported
      else if colorType \<noteq> 0 \<and> colorType \<noteq> 2 \<and> colorType \<noteq> 4 \<and> colorType \<noteq> 6
        then Inl (UnsupportedColorType colorType)
      else
        bindE (inflateSync rt (concat (idatChunks st))) (\<lambda>inflated.
        let bytesPerPixel = (if colorType = 6 then 4 else if colorType = 4 then 2
                             else if colorType = 2 then 3 else 1) in
        bindE (unfilterScanlines inflated w h bytesPerPixel) (\<lambda>raw.
        let pixels = w * h in
        if colorType = 2 then
          Inr \<lparr>width = w, height = h, bitDepth = ihdrBitDepth st,
               rgbDeflated = deflateSync rt raw, alphaDeflated = None\<rparr>
        else if colorType = 0 then
          bindE (foldE (grayPixel raw) [0..<pixels] (replicate (pixels * 3) 0)) (\<lambda>rgb.
            Inr \<lparr>width = w, height = h, bitDepth = ihdrBitDepth st,
                 rgbDeflated = deflateSync rt rgb, alphaDeflated = None\<rparr>)
        else if colorType = 4 then
          bindE (foldE (grayAlphaPixel raw) [0..<pixels]
                   (replicate (pixels * 3) 0, replicate pixels 0)) (\<lambda>planes.
            Inr \<lparr>width = w, height = h, bitDepth = ihdrBitDepth st,
                 rgbDeflated = deflateSync rt (fst planes),
                 alphaDeflated = Some (deflateSync rt (snd planes))\<rparr>)
        else
          bindE (foldE (rgbaPixel raw) [0..<pixels]
                   (replicate (pixels * 3) 0, replicate pixels 0)) (\<lambda>planes.
            Inr \<lparr>width = w, height = h, bitDepth = ihdrBitDepth st,
                 rgbDeflated = deflateSync rt (fst planes),
                 alphaDeflated = Some (deflateSync rt (snd planes))\<rparr>))))"

definition parsePng :: "runtime \<Rightarrow> buffer \<Rightarrow> error + ParsedPng" where
  "parsePng rt buf =
     (if length buf < 8 \<or> subarray buf 0 8 \<noteq> PNG_SIGNATURE then Inl BadSignature
      else bindE (scanChunks buf 8 initialScan) (decodeScan rt))"


section \<open>The layout engine and the program\<close>

text \<open>The two counts of \<open>LAYOUT\<close>; its lengths in millimetres enter only through \<open>measure\<close>.\<close>

definition LAYOUT_cols :: nat where
  "LAYOUT_cols = 4"

definition LAYOUT_rowsPerPage :: nat where
  "LAYOUT_rowsPerPage = 4"

record PdfImageRef =
  refName :: string
  refObjectId :: nat

text \<open>
  \<open>chunkBy\<close>: the loop adds \<open>size\<close> to \<open>i\<close> until \<open>i\<close> reaches the length; with
  \<open>size = 0\<close> and a non-empty list it never ends, which is the value \<open>None\<close>.
\<close>

partial_function (option) chunkLoop ::
    "'a list \<Rightarrow> nat \<Rightarrow> nat \<Rightarrow> 'a list list \<Rightarrow> 'a list list option" where
  "chunkLoop items sz i acc =
     (if i < length items
      then chunkLoop items sz (i + sz) (acc @ [take sz (drop i items)])
      else Some acc)"

declare chunkLoop.simps [code]

definition chunkBy :: "'a list \<Rightarrow> nat \<Rightarrow> 'a list list option" where
  "chunkBy items sz = chunkLoop items sz 0 []"

text \<open>\<open>imageRefs[globalIndex]\<close>, \<open>undefined\<close> outside the array.\<close>

definition refAt :: "PdfImageRef list \<Rightarrow> nat \<Rightarrow> PdfImageRef option" where
  "refAt imageRefs i = (if i < length imageRefs then Some (imageRefs ! i) else None)"

text \<open>The four strings pushed for one copy of a tile.\<close>

definition cellCommands :: "runtime \<Rightarrow> PdfImageRef \<Rightarrow> nat \<Rightarrow> nat \<Rightarrow> string list" where
  "cellCommands rt imageRef row col =
     [''q'',
      toFixed4 rt CellWidthPt @ '' 0 0 '' @ toFixed4 rt CellHeightPt @ '' ''
        @ toFixed4 rt (CellXPt col) @ '' '' @ toFixed4 rt (CellYPt row) @ '' cm'',
      ''/'' @ refName imageRef @ '' Do'',
      ''Q'']"

text \<open>The state of the row loop of one page: \<open>commands\<close> and \<open>xObjectEntries\<close>.\<close>

record pageContent =
  commands :: "string list"
  xObjectEntries :: "string list"

definition rowStep ::
    "runtime \<Rightarrow> PdfImageRef list \<Rightarrow> nat \<Rightarrow> nat \<Rightarrow> pageContent \<Rightarrow> pageContent" where
  "rowStep rt imageRefs pageIndex row pc =
     (case refAt imageRefs (pageIndex * LAYOUT_rowsPerPage + row) of
        None \<Rightarrow> pc
      | Some imageRef \<Rightarrow>
          \<lparr>commands = fold (\<lambda>col cmds. cmds @ cellCommands rt imageRef row col)
                         [0..<LAYOUT_cols] (commands pc),
           xObjectEntries = xObjectEntries pc
             @ [''/'' @ refName imageRef @ '' '' @ dec (refObjectId imageRef) @ '' 0 R'']\<rparr>)"

text \<open>The twelve strings pushed when guides are on.\<close>

definition guideCommands :: "runtime \<Rightarrow> string list" where
  "guideCommands rt =
     [''q'', ''0.2 0.4 0.9 RG'', ''0.5 w'',
      toFixed4 rt CenterXPt @ '' 0 m '' @ toFixed4 rt CenterXPt @ '' ''
        @ toFixed4 rt PageHeightPt @ '' l S'',
      ''0 '' @ toFixed4 rt CenterYPt @ '' m '' @ toFixed4 rt PageWidthPt @ '' ''
        @ toFixed4 rt CenterYPt @ '' l S'',
      ''Q'',
      ''q'', ''0.9 0.2 0.2 RG'', ''0.8 w'',
      toFixed4 rt LeftPt @ '' '' @ toFixed4 rt BottomYPtFromBottom @ '' m ''
        @ toFixed4 rt RightPt @ '' '' @ toFixed4 rt BottomYPtFromBottom @ '' l ''
        @ toFixed4 rt RightPt @ '' '' @ toFixed4 rt TopYPtFromBottom @ '' l ''
        @ toFixed4 rt LeftPt @ '' '' @ toFixed4 rt TopYPtFromBottom @ '' l h S'',
      ''Q'']"

text \<open>The commands and resource entries of the page \<open>pageIndex\<close> holding \<open>rows\<close>.\<close>

definition pageLayout ::
    "runtime \<Rightarrow> bool \<Rightarrow> PdfImageRef list \<Rightarrow> nat \<Rightarrow> ParsedTileFile list \<Rightarrow> pageContent" where
  "pageLayout rt showGuides imageRefs pageIndex rows =
     (let pc = fold (rowStep rt imageRefs pageIndex) [0..<length rows]
                 \<lparr>commands = [], xObjectEntries = []\<rparr>
      in if showGuides then pc\<lparr>commands := commands pc @ guideCommands rt\<rparr> else pc)"

text \<open>One round of the page loop of \<open>createPdf\<close>: the builder and \<open>pageIds\<close> are the state.\<close>

definition pageStep ::
    "runtime \<Rightarrow> bool \<Rightarrow> PdfImageRef list \<Rightarrow> nat \<Rightarrow> nat \<times> ParsedTileFile list
       \<Rightarrow> PdfBuilder \<times> nat list \<Rightarrow> PdfBuilder \<times> nat list" where
  "pageStep rt showGuides imageRefs pagesId page st =
     (let pc = pageLayout rt showGuides imageRefs (fst page) (snd page);
          contentData = binary (join [nl] (commands pc) @ [nl]);
          (b1, contentId) = addStreamObject (fst st)
             (''<< /Length '' @ dec (length contentData) @ '' >>'') contentData;
          (b2, pageId) = addRawObject b1
             (''<< /Type /Page /Parent '' @ dec pagesId @ '' 0 R /MediaBox [0 0 ''
              @ toFixed4 rt PageWidthPt @ '' '' @ toFixed4 rt PageHeightPt
              @ ''] /Resources << /XObject << '' @ join '' '' (xObjectEntries pc)
              @ '' >> >> /Contents '' @ dec contentId @ '' 0 R >>'')
      in (b2, snd st @ [pageId]))"

text \<open>
  What the program does to the world, in order: the calls into the file system and the
  console output.
\<close>

datatype event =
    EvReaddir string
  | EvReadFile string
  | EvMkdir string
  | EvWriteFile string buffer
  | EvPrintHelp
  | EvReport string nat nat bool

text \<open>
  One round of the first loop of \<open>createPdf\<close>: read the file, decode it, register the
  soft mask if there is one, register the image. The state is the events so far, the
  builder and \<open>imageRefs\<close>; an error carries the events up to the failing call.
\<close>

definition decodeStep ::
    "runtime \<Rightarrow> nat \<times> ParsedTileFile \<Rightarrow> event list \<times> PdfBuilder \<times> PdfImageRef list
       \<Rightarrow> (event list \<times> error) + (event list \<times> PdfBuilder \<times> PdfImageRef list)" where
  "decodeStep rt tile st =
     (let (evs, b, imageRefs) = st;
          evs1 = evs @ [EvReadFile (filePath (snd tile))]
      in case readFile rt (filePath (snd tile)) of
           Inl e \<Rightarrow> Inl (evs1, e)
         | Inr file \<Rightarrow>
            (case parsePng rt file of
               Inl e \<Rightarrow> Inl (evs1, e)
             | Inr parsed \<Rightarrow>
                 let (b1, smaskId) =
                       (case alphaDeflated parsed of
                          None \<Rightarrow> (b, None)
                        | Some alpha \<Rightarrow>
                            let (b', k) = addStreamObject b
                              (''<< /Type /XObject /Subtype /Image /Width '' @ dec (width parsed)
                               @ '' /Height '' @ dec (height parsed)
                               @ '' /ColorSpace /DeviceGray /BitsPerComponent 8''
                               @ '' /Filter /FlateDecode /Length '' @ dec (length alpha) @ '' >>'')
                              alpha
                            in (b', Some k));
                     smaskPart =
                       (case smaskId of
                          None \<Rightarrow> []
                        | Some k \<Rightarrow> if k = 0 then [] else '' /SMask '' @ dec k @ '' 0 R'');
                     (b2, imageId) = addStreamObject b1
                       (''<< /Type /XObject /Subtype /Image /Width '' @ dec (width parsed)
                        @ '' /Height '' @ dec (height parsed)
                        @ '' /ColorSpace /DeviceRGB /BitsPerComponent '' @ dec (bitDepth parsed)
                        @ '' /Filter /FlateDecode /Length '' @ dec (length (rgbDeflated parsed))
                        @ smaskPart @ '' >>'')
                       (rgbDeflated parsed)
                 in Inr (evs1, b2,
                      imageRefs @ [\<lparr>refName = ''Im'' @ dec (fst tile + 1), refObjectId = imageId\<rparr>])))"

fun decodeTiles ::
    "runtime \<Rightarrow> (nat \<times> ParsedTileFile) list \<Rightarrow> event list \<times> PdfBuilder \<times> PdfImageRef list
       \<Rightarrow> (event list \<times> error) + (event list \<times> PdfBuilder \<times> PdfImageRef list)" where
  "decodeTiles rt [] st = Inr st"
| "decodeTiles rt (tile # rest) st =
     (case decodeStep rt tile st of Inl e \<Rightarrow> Inl e | Inr st' \<Rightarrow> decodeTiles rt rest st')"

text \<open>
  \<open>createPdf\<close> from the placeholder on: the pages, the page tree and the catalog, then
  \<open>build\<close>. \<open>None\<close> stands for a \<open>chunkBy\<close> that does not return.
\<close>

definition layoutDocument ::
    "runtime \<Rightarrow> bool \<Rightarrow> ParsedTileFile list \<Rightarrow> PdfBuilder \<Rightarrow> PdfImageRef list
       \<Rightarrow> (error + buffer) option" where
  "layoutDocument rt showGuides tiles b imageRefs =
     (let (b1, pagesId) = addPlaceholderObject b in
      case chunkBy tiles LAYOUT_rowsPerPage of
        None \<Rightarrow> None
      | Some tilePages \<Rightarrow>
          let (b2, pageIds) =
                fold (pageStep rt showGuides imageRefs pagesId)
                  (zip [0..<length tilePages] tilePages) (b1, []);
              kids = join '' '' (map (\<lambda>k. dec k @ '' 0 R'') pageIds);
              b3 = setObject b2 pagesId
                     (binary (''<< /Type /Pages /Kids ['' @ kids @ ''] /Count ''
                              @ dec (length pageIds) @ '' >>''));
              (b4, catalogId) = addRawObject b3
                     (''<< /Type /Catalog /Pages '' @ dec pagesId @ '' 0 R >>'')
          in Some (build b4 catalogId))"

definition createPdf ::
    "runtime \<Rightarrow> ParsedTileFile list \<Rightarrow> bool \<Rightarrow> (event list \<times> (error + buffer)) option" where
  "createPdf rt tiles showGuides =
     (case decodeTiles rt (zip [0..<length tiles] tiles) ([], newPdfBuilder, []) of
        Inl (evs, e) \<Rightarrow> Some (evs, Inl e)
      | Inr (evs, b, imageRefs) \<Rightarrow>
          (case layoutDocument rt showGuides tiles b imageRefs of
             None \<Rightarrow> None
           | Some r \<Rightarrow> Some (evs, r)))"

text \<open>The options \<open>parseArgs\<close> returns.\<close>

record CliOptions =
  inputDir :: string
  outputFile :: string
  showHelp :: bool
  showGuides :: bool

text \<open>
  How a run ends: \<open>process.exit(0)\<close> after the help text, a rejected promise (which the
  caller reports before \<open>process.exit(1)\<close>), or normally.
\<close>

datatype outcome = HelpShown | Failed error | Completed

text \<open>
  \<open>main\<close> on the options of the command line: the events of the run and how it ends;
  \<open>None\<close> when it does not end.
\<close>

definition main :: "runtime \<Rightarrow> CliOptions \<Rightarrow> (event list \<times> outcome) option" where
  "main rt options =
     (if showHelp options then Some ([EvPrintHelp], HelpShown)
      else
        let inDir = pathResolve rt (inputDir options);
            outFile = pathResolve rt (outputFile options);
            evs0 = [EvReaddir inDir]
        in case findPngFiles rt inDir of
             Inl e \<Rightarrow> Some (evs0, Failed e)
           | Inr tiles \<Rightarrow>
               if length tiles = 0 then Some (evs0, Failed (EmptyInput inDir))
               else
                 (case createPdf rt tiles (showGuides options) of
                    None \<Rightarrow> None
                  | Some (evs1, Inl e) \<Rightarrow> Some (evs0 @ evs1, Failed e)
                  | Some (evs1, Inr pdf) \<Rightarrow>
                      let evs2 = evs0 @ evs1 @ [EvMkdir (pathDirname rt outFile)] in
                      (case mkdir rt (pathDirname rt outFile) of
                         Some e \<Rightarrow> Some (evs2, Failed e)
                       | None \<Rightarrow>
                           let evs3 = evs2 @ [EvWriteFile outFile pdf] in
                           (case writeFile rt outFile pdf of
                              Some e \<Rightarrow> Some (evs3, Failed e)
                            | None \<Rightarrow>
                                Some (evs3 @ [EvReport outFile (length tiles)
                                        ((length tiles + LAYOUT_rowsPerPage - 1) div LAYOUT_rowsPerPage)
                                        (showGuides options)],
                                      Completed)))))"


subsection \<open>The forward filters of the raster format\<close>








subsection \<open>The chunk container\<close>

text \<open>
  A chunk of the container: four type bytes, the payload and four checksum bytes; on the wire
  the payload length comes first, as four bytes, most significant first. \<open>tagReads s c\<close>
  holds when the program reads the type of \<open>c\<close> as the string \<open>s\<close>, that is when the type
  bytes with their highest bit cleared are the codes of \<open>s\<close>. \<open>walkChunks\<close> is the chunk
  loop on a list of chunks: it ends with \<open>Stopped\<close> at an error or at the terminator, or
  runs through the list and is \<open>Running\<close>.
\<close>

definition u32be :: "nat \<Rightarrow> buffer" where
  "u32be n = [of_nat (n div 2 ^ 24), of_nat (n div 2 ^ 16), of_nat (n div 2 ^ 8), of_nat n]"

record chunk =
  ctag :: buffer
  cdata :: buffer
  ccrc :: buffer

definition encodeChunk :: "chunk \<Rightarrow> buffer" where
  "encodeChunk c = u32be (length (cdata c)) @ ctag c @ cdata c @ ccrc c"

definition wellFormedChunk :: "chunk \<Rightarrow> bool" where
  "wellFormedChunk c = (length (ctag c) = 4 \<and> length (ccrc c) = 4 \<and> length (cdata c) < 2 ^ 32)"

definition tagReads :: "string \<Rightarrow> chunk \<Rightarrow> bool" where
  "tagReads s c = (map (\<lambda>b. b AND 0x7F) (ctag c) = binary s)"

definition knownChunk :: "chunk \<Rightarrow> bool" where
  "knownChunk c = (tagReads ''IHDR'' c \<or> tagReads ''IDAT'' c \<or> tagReads ''IEND'' c)"

datatype scanResult = Stopped "error + chunkScan" | Running chunkScan

fun walkChunks :: "chunk list \<Rightarrow> chunkScan \<Rightarrow> scanResult" where
  "walkChunks [] st = Running st"
| "walkChunks (c # cs) st =
     (if tagReads ''IHDR'' c then
        (case readHeader (cdata c) st of
           Inl e \<Rightarrow> Stopped (Inl e)
         | Inr st' \<Rightarrow> walkChunks cs st')
      else if tagReads ''IDAT'' c then
        walkChunks cs (st\<lparr>idatChunks := idatChunks st @ [cdata c]\<rparr>)
      else if tagReads ''IEND'' c then Stopped (Inr st)
      else walkChunks cs st)"


section \<open>A sample runtime\<close>

text \<open>
  A concrete runtime, for running the model on concrete inputs. Its zlib handles the streams
  made of stored (uncompressed) deflate blocks: \<open>inflateStored\<close> checks the two-byte zlib
  header, reads stored blocks up to the final one and checks the Adler-32 trailer, and reports
  every other stream as an error; \<open>deflateStored\<close> writes such a stream. Its collation is
  \<open>codeUnitCompare\<close>, its directory listing and files are given, and its \<open>toFixed4\<close> prints
  the exact product with \<open>72 / 25.4\<close> rounded to four decimals.
\<close>

definition u16le :: "nat \<Rightarrow> buffer" where
  "u16le n = [of_nat n, of_nat (n div 256)]"

definition adler32 :: "buffer \<Rightarrow> nat" where
  "adler32 bytes =
     (let (a, b) = foldl (\<lambda>(a, b) x. let a' = (a + unat x) mod 65521 in (a', (b + a') mod 65521))
                     (1, 0) bytes
      in b * 65536 + a)"

function storedBlocks :: "buffer \<Rightarrow> buffer \<Rightarrow> error + buffer \<times> buffer" where
  "storedBlocks bs acc =
     (case bs of
        hdr # l0 # l1 # n0 # n1 # rest \<Rightarrow>
          let len = unat l0 + 256 * unat l1; nlen = unat n0 + 256 * unat n1 in
          if hdr AND 6 \<noteq> 0 \<or> len + nlen \<noteq> 65535 \<or> length rest < len then Inl ZlibError
          else if hdr AND 1 = 1 then Inr (acc @ take len rest, drop len rest)
          else storedBlocks (drop len rest) (acc @ take len rest)
      | _ \<Rightarrow> Inl ZlibError)"
  by pat_completeness auto
termination
  by (relation "measure (\<lambda>(bs, acc). length bs)") auto

declare storedBlocks.simps [simp del]

definition inflateStored :: "buffer \<Rightarrow> error + buffer" where
  "inflateStored z =
     (case z of
        cmf # flg # rest \<Rightarrow>
          if cmf AND 15 \<noteq> 8 \<or> (unat cmf * 256 + unat flg) mod 31 \<noteq> 0 \<or> flg AND 32 \<noteq> 0
          then Inl ZlibError
          else (case storedBlocks rest [] of
                  Inl e \<Rightarrow> Inl e
                | Inr (bytes, trailer) \<Rightarrow>
                    if take 4 trailer = u32be (adler32 bytes) then Inr bytes else Inl ZlibError)
      | _ \<Rightarrow> Inl ZlibError)"

function storedEncode :: "buffer \<Rightarrow> buffer" where
  "storedEncode bytes =
     (if length bytes \<le> 65535
      then [1] @ u16le (length bytes) @ u16le (65535 - length bytes) @ bytes
      else [0] @ u16le 65535 @ u16le 0 @ take 65535 bytes @ storedEncode (drop 65535 bytes))"
  by pat_completeness auto
termination
  by (relation "measure length") auto

declare storedEncode.simps [simp del]

definition deflateStored :: "buffer \<Rightarrow> buffer" where
  "deflateStored bytes = [0x78, 0x01] @ storedEncode bytes @ u32be (adler32 bytes)"

text \<open>The lengths of \<open>measure\<close> in millimetres, from the constants of \<open>LAYOUT\<close>.\<close>

fun sampleMm :: "measure \<Rightarrow> nat" where
  "sampleMm CellWidthPt = 17"
| "sampleMm CellHeightPt = 24"
| "sampleMm PageWidthPt = 100"
| "sampleMm PageHeightPt = 148"
| "sampleMm (CellXPt col) = 10 + col * (17 + 4)"
| "sampleMm (CellYPt row) = 148 - 20 - 24 - row * (24 + 4)"
| "sampleMm CenterXPt = 50"
| "sampleMm CenterYPt = 74"
| "sampleMm LeftPt = 10"
| "sampleMm RightPt = 10 + (4 * 17 + 3 * 4)"
| "sampleMm TopYPtFromBottom = 148 - 20"
| "sampleMm BottomYPtFromBottom = 148 - (20 + (4 * 24 + 3 * 4))"

definition sampleFixed :: "measure \<Rightarrow> string" where
  "sampleFixed m =
     (let tenThousandths = (sampleMm m * 7200000 * 2 + 254) div (2 * 254)
      in dec (tenThousandths div 10000) @ ''.''
         @ padStart 4 (CHR ''0'') (dec (tenThousandths mod 10000)))"

definition sampleRuntime :: "Dirent list \<Rightarrow> (string \<rightharpoonup> buffer) \<Rightarrow> runtime" where
  "sampleRuntime entries files =
     \<lparr>readdir = (\<lambda>dir. Inr entries),
      readFile = (\<lambda>p. case files p of None \<Rightarrow> Inl (IoError p) | Some bytes \<Rightarrow> Inr bytes),
      mkdir = (\<lambda>dir. None),
      writeFile = (\<lambda>p bytes. None),
      inflateSync = inflateStored,
      deflateSync = deflateStored,
      localeCompare = codeUnitCompare,
      pathResolve = (\<lambda>p. p),
      pathJoin = (\<lambda>dir nm. dir @ ''/'' @ nm),
      pathDirname = (\<lambda>p. ''.''),
      toFixed4 = sampleFixed\<rparr>"

text \<open>A chunk of the container: length, type, payload and four checksum bytes.\<close>

definition pngChunk :: "string \<Rightarrow> buffer \<Rightarrow> buffer" where
  "pngChunk tag payload = u32be (length payload) @ binary tag @ payload @ [0, 0, 0, 0]"

text \<open>The header payload of a \<open>w\<close> by \<open>h\<close> image: bit depth, colour type, no interlacing.\<close>

definition ihdrPayload :: "nat \<Rightarrow> nat \<Rightarrow> nat \<Rightarrow> nat \<Rightarrow> buffer" where
  "ihdrPayload w h depth colorType =
     u32be w @ u32be h @ [of_nat depth, of_nat colorType, 0, 0, 0]"



section \<open>Properties of the document encoder\<close>

lemma emitObjects_all_some:
  "emitObjects k (map Some bodies) st =
     \<lparr>chunks = chunks st @ blocksFrom k bodies,
      offsets = offsets st @ startsFrom (offset st) (blocksFrom k bodies),
      offset = offset st + length (concat (blocksFrom k bodies))\<rparr>"
  by (induction bodies arbitrary: k st) (simp_all add: Let_def)

lemma length_blocksFrom [simp]: "length (blocksFrom k xs) = length xs"
  by (induction xs arbitrary: k) simp_all

lemma length_startsFrom [simp]: "length (startsFrom off xs) = length xs"
  by (induction xs arbitrary: off) simp_all

lemma nth_blocksFrom: "i < length xs \<Longrightarrow> blocksFrom k xs ! i = objBlock (k + i) (xs ! i)"
  by (induction xs arbitrary: k i) (auto simp: nth_Cons')

lemma nth_startsFrom:
  "i < length xs \<Longrightarrow> startsFrom off xs ! i = off + length (concat (take i xs))"
  by (induction xs arbitrary: off i) (auto simp: nth_Cons' take_Cons')

lemma blocksFrom_documentBlocks: "blocksFrom 0 bodies = documentBlocks bodies"
  by (rule nth_equalityI) (simp_all add: nth_blocksFrom documentBlocks_def objBlock_def)

lemma startsFrom_map:
  "startsFrom off xs = map (\<lambda>i. off + length (concat (take i xs))) [0..<length xs]"
  by (rule nth_equalityI) (simp_all add: nth_startsFrom)

lemma xrefLoop_rows:
  "\<forall>i\<in>set is. i < length offs \<Longrightarrow>
   xrefLoop offs is rows = Inr (rows @ map (\<lambda>i. xrefRow (offs ! i)) is)"
  by (induction "is" arbitrary: rows) simp_all

lemma block_at_position:
  "i < length xs \<Longrightarrow>
   take (length (xs ! i)) (drop (length pre + length (concat (take i xs))) (pre @ concat xs @ post))
     = xs ! i"
proof -
  assume i: "i < length xs"
  have "xs = take i xs @ xs ! i # drop (Suc i) xs"
    using i by (simp add: id_take_nth_drop)
  then have "concat xs = concat (take i xs) @ xs ! i @ concat (drop (Suc i) xs)"
    by (metis concat.simps(2) concat_append)
  then show ?thesis by simp
qed

lemma length_dec_le: "0 < k \<Longrightarrow> n < 10 ^ k \<Longrightarrow> length (dec n) \<le> k"
proof (induction n arbitrary: k rule: dec.induct)
  case (1 n)
  show ?case
  proof (cases "n < 10")
    case True
    then show ?thesis using "1.prems" by (simp add: dec.simps)
  next
    case False
    then obtain k' where k: "k = Suc k'" "0 < k'"
      using "1.prems" by (cases k; cases "k - 1") auto
    have "n div 10 < 10 ^ k'" using "1.prems" k by (simp add: less_mult_imp_div_less mult.commute)
    from "1.IH"[OF False k(2) this] show ?thesis using False k by (simp add: dec.simps[of n])
  qed
qed

lemma build_all_some:
  assumes "objects b = map Some bodies"
  shows "build b root =
     Inr (pdfHeader @ concat (documentBlocks bodies) @ binary (xrefSectionSpec bodies root))"
proof -
  let ?n = "length bodies"
  let ?st = "emitObjects 0 (map Some bodies) \<lparr>chunks = [pdfHeader], offsets = [0], offset = length pdfHeader\<rparr>"
  have st: "?st = \<lparr>chunks = pdfHeader # documentBlocks bodies,
      offsets = 0 # map (objectPosition bodies) [0..<?n],
      offset = objectPosition bodies ?n\<rparr>"
    by (simp add: emitObjects_all_some blocksFrom_documentBlocks startsFrom_map
        objectPosition_def documentBlocks_def)
  have rows: "xrefLoop (offsets ?st) [1..<length (offsets ?st)] [''0000000000 65535 f '']
      = Inr (''0000000000 65535 f '' # map (\<lambda>i. xrefRow (objectPosition bodies i)) [0..<?n])"
  proof -
    have "map (\<lambda>i. xrefRow ((0 # map (objectPosition bodies) [0..<?n]) ! i)) [1..<Suc ?n]
        = map (\<lambda>i. xrefRow (objectPosition bodies i)) [0..<?n]"
      by (rule nth_equalityI) (simp_all del: upt_Suc)
    then show ?thesis
      by (subst xrefLoop_rows) (simp_all add: st del: upt_Suc)
  qed
  show ?thesis
    unfolding build_def Let_def assms rows
    by (simp add: st xrefSectionSpec_def xrefRow_def Let_def)
qed

lemma setObject_in_range:
  assumes "1 \<le> objectId" "objectId \<le> length (objects b)"
  shows "objects (setObject b objectId body) = (objects b)[objectId - 1 := Some body]"
  using assms by (auto simp: setObject_def Let_def)

lemma runCalls_registration:
  "isRegistration c \<Longrightarrow>
   \<exists>body. runCalls b (c # cs) =
     (fst (runCalls (b\<lparr>objects := objects b @ [Some body]\<rparr>) cs),
      (length (objects b) + 1) # snd (runCalls (b\<lparr>objects := objects b @ [Some body]\<rparr>) cs))"
  by (cases c)
    (auto simp: split_beta Let_def addObject_def addRawObject_def addPlaceholderObject_def
      addStreamObject_def)

lemma upt_ids_step: "(n + 1) # [Suc n + 1 ..< Suc n + 1 + k] = [n + 1 ..< n + 1 + Suc k]"
  by (simp add: upt_conv_Cons)

lemma runCalls_ids:
  "overwritesRegistered (length (objects b)) cs \<Longrightarrow>
   snd (runCalls b cs)
     = [length (objects b) + 1 ..< length (objects b) + 1 + length (filter isRegistration cs)]
   \<and> length (objects (fst (runCalls b cs)))
     = length (objects b) + length (filter isRegistration cs)"
proof (induction cs arbitrary: b)
  case Nil
  then show ?case by simp
next
  case (Cons c cs)
  show ?case
  proof (cases "isRegistration c")
    case False
    then obtain objectId body where c: "c = CallSetObject objectId body"
      by (cases c) auto
    with Cons.prems have r: "1 \<le> objectId" "objectId \<le> length (objects b)"
      and rest: "overwritesRegistered (length (objects b)) cs" by simp_all
    have len: "length (objects (setObject b objectId body)) = length (objects b)"
      by (simp add: setObject_in_range[OF r])
    from Cons.IH[of "setObject b objectId body"] rest len
    show ?thesis by (simp add: c)
  next
    case True
    from runCalls_registration[OF True, of b cs] obtain body where
      run: "runCalls b (c # cs) =
        (fst (runCalls (b\<lparr>objects := objects b @ [Some body]\<rparr>) cs),
         (length (objects b) + 1) # snd (runCalls (b\<lparr>objects := objects b @ [Some body]\<rparr>) cs))"
      by blast
    let ?b1 = "b\<lparr>objects := objects b @ [Some body]\<rparr>"
    have len: "length (objects ?b1) = Suc (length (objects b))" by simp
    from Cons.prems True have "overwritesRegistered (length (objects ?b1)) cs"
      by (cases c) simp_all
    from Cons.IH[OF this]
    have ih: "snd (runCalls ?b1 cs)
        = [Suc (length (objects b)) + 1 ..<
             Suc (length (objects b)) + 1 + length (filter isRegistration cs)]"
      and ihlen: "length (objects (fst (runCalls ?b1 cs)))
        = Suc (length (objects b)) + length (filter isRegistration cs)"
      unfolding len by simp_all
    have "snd (runCalls b (c # cs))
        = [length (objects b) + 1 ..<
             length (objects b) + 1 + Suc (length (filter isRegistration cs))]"
      unfolding run snd_conv ih by (rule upt_ids_step)
    moreover have "length (objects (fst (runCalls b (c # cs))))
        = length (objects b) + Suc (length (filter isRegistration cs))"
      unfolding run fst_conv ihlen by simp
    ultimately show ?thesis using True by simp
  qed
qed

lemma runCalls_table:
  "overwritesRegistered (length t) cs \<Longrightarrow> objects b = map Some t \<Longrightarrow>
   objects (fst (runCalls b cs)) = map Some (tableAfter t cs)"
proof (induction cs arbitrary: b t)
  case Nil
  then show ?case by simp
next
  case (Cons c cs)
  show ?case
  proof (cases c)
    case (CallSetObject objectId body)
    with Cons.prems have r: "1 \<le> objectId" "objectId \<le> length (objects b)"
      and rest: "overwritesRegistered (length (t[objectId - 1 := body])) cs" by simp_all
    have "objects (setObject b objectId body) = map Some (t[objectId - 1 := body])"
      by (simp add: setObject_in_range[OF r] Cons.prems(2) map_update)
    from Cons.IH[OF rest this] show ?thesis by (simp add: CallSetObject)
  next
    case (CallAddObject body)
    with Cons.prems have rest: "overwritesRegistered (length (t @ [body])) cs" by simp
    have "objects (fst (addObject b body)) = map Some (t @ [body])"
      by (simp add: addObject_def Let_def Cons.prems(2))
    from Cons.IH[OF rest this] show ?thesis by (simp add: CallAddObject split_beta Let_def)
  next
    case (CallAddRawObject raw)
    with Cons.prems have rest: "overwritesRegistered (length (t @ [binary raw])) cs" by simp
    have "objects (fst (addRawObject b raw)) = map Some (t @ [binary raw])"
      by (simp add: addRawObject_def addObject_def Let_def Cons.prems(2))
    from Cons.IH[OF rest this] show ?thesis by (simp add: CallAddRawObject split_beta Let_def)
  next
    case CallAddPlaceholderObject
    with Cons.prems have rest: "overwritesRegistered (length (t @ [binary ''<< >>''])) cs" by simp
    have "objects (fst (addPlaceholderObject b)) = map Some (t @ [binary ''<< >>''])"
      by (simp add: addPlaceholderObject_def addObject_def Let_def Cons.prems(2))
    from Cons.IH[OF rest this] show ?thesis
      by (simp add: CallAddPlaceholderObject split_beta Let_def)
  next
    case (CallAddStreamObject dict bytes)
    let ?body = "binary (dict @ [nl] @ ''stream'' @ [nl]) @ bytes @ binary ([nl] @ ''endstream'')"
    from CallAddStreamObject Cons.prems
    have rest: "overwritesRegistered (length (t @ [?body])) cs" by simp
    have "objects (fst (addStreamObject b dict bytes)) = map Some (t @ [?body])"
      by (simp add: addStreamObject_def addObject_def Let_def Cons.prems(2))
    from Cons.IH[OF rest this] show ?thesis
      by (simp add: CallAddStreamObject split_beta Let_def)
  qed
qed

lemma tableAfter_adds: "tableAfter t (map CallAddObject bodies) = t @ bodies"
  by (induction bodies arbitrary: t) simp_all

lemma overwritesRegistered_adds: "overwritesRegistered n (map CallAddObject bodies)"
  by (induction bodies arbitrary: n) simp_all

text \<open>
  Claim C7. Identifiers are dense and strictly increasing in registration order: on a new
  builder, any sequence of calls whose \<open>setObject\<close> calls overwrite registered objects
  returns the identifiers \<open>1, 2, \<dots>, k\<close> in order, \<open>k\<close> being the number of registering
  calls, and leaves \<open>k\<close> objects, the object with identifier \<open>i\<close> holding the body of the
  \<open>i\<close>-th registration or of the last overwrite of \<open>i\<close>; in particular registering the
  bodies \<open>bodies\<close> gives the \<open>k\<close>-th of them the identifier \<open>k\<close>. A registration returns the
  number of objects plus one, stores its body under that identifier and leaves every
  earlier object as it was. Overwriting a registered object with \<open>setObject\<close> keeps the
  number of objects, puts the new body at that identifier, leaves the body at every other
  identifier as it was, and does not change the identifier the next registration returns.
\<close>

theorem builder_ids_dense_and_overwrite_frame:
  "(overwritesRegistered 0 cs \<longrightarrow>
      snd (runCalls newPdfBuilder cs) = [1 ..< Suc (length (filter isRegistration cs))]
      \<and> length (objects (fst (runCalls newPdfBuilder cs))) = length (filter isRegistration cs)
      \<and> objects (fst (runCalls newPdfBuilder cs)) = map Some (tableAfter [] cs))
   \<and> objects (fst (runCalls newPdfBuilder (map CallAddObject bodies))) = map Some bodies
   \<and> snd (runCalls newPdfBuilder (map CallAddObject bodies)) = [1 ..< Suc (length bodies)]
   \<and> snd (addObject b body') = Suc (length (objects b))
   \<and> length (objects (fst (addObject b body'))) = Suc (length (objects b))
   \<and> objects (fst (addObject b body')) ! (snd (addObject b body') - 1) = Some body'
   \<and> (\<forall>j < length (objects b). objects (fst (addObject b body')) ! j = objects b ! j)
   \<and> (1 \<le> objectId \<and> objectId \<le> length (objects b) \<longrightarrow>
      length (objects (setObject b objectId body)) = length (objects b)
      \<and> objects (setObject b objectId body) ! (objectId - 1) = Some body
      \<and> (\<forall>j < length (objects b). j \<noteq> objectId - 1 \<longrightarrow>
            objects (setObject b objectId body) ! j = objects b ! j)
      \<and> snd (addObject (setObject b objectId body) body') = snd (addObject b body'))"
proof -
  have new: "objects newPdfBuilder = map Some []" "length (objects newPdfBuilder) = 0"
    by (simp_all add: newPdfBuilder_def)
  have seq: "snd (runCalls newPdfBuilder cs) = [1 ..< Suc (length (filter isRegistration cs))]
      \<and> length (objects (fst (runCalls newPdfBuilder cs))) = length (filter isRegistration cs)
      \<and> objects (fst (runCalls newPdfBuilder cs)) = map Some (tableAfter [] cs)"
    if ok: "overwritesRegistered 0 cs" for cs
  proof -
    from ok have ok': "overwritesRegistered (length (objects newPdfBuilder)) cs"
      by (simp add: new)
    from ok have ok'': "overwritesRegistered (length ([] :: buffer list)) cs" by simp
    show ?thesis
      using runCalls_ids[OF ok'] runCalls_table[OF ok'' new(1)] by (simp add: new)
  qed
  have adds: "objects (fst (runCalls newPdfBuilder (map CallAddObject bodies))) = map Some bodies"
    "snd (runCalls newPdfBuilder (map CallAddObject bodies)) = [1 ..< Suc (length bodies)]"
  proof -
    have reg: "filter isRegistration (map CallAddObject bodies) = map CallAddObject bodies"
      by (induction bodies) simp_all
    from seq[OF overwritesRegistered_adds, of bodies]
    show "objects (fst (runCalls newPdfBuilder (map CallAddObject bodies))) = map Some bodies"
      and "snd (runCalls newPdfBuilder (map CallAddObject bodies)) = [1 ..< Suc (length bodies)]"
      by (simp_all add: tableAfter_adds reg)
  qed
  have add: "snd (addObject b body') = Suc (length (objects b))"
    "length (objects (fst (addObject b body'))) = Suc (length (objects b))"
    "objects (fst (addObject b body')) ! (snd (addObject b body') - 1) = Some body'"
    "\<forall>j < length (objects b). objects (fst (addObject b body')) ! j = objects b ! j"
    by (simp_all add: addObject_def Let_def nth_append)
  have set: "length (objects (setObject b objectId body)) = length (objects b)
      \<and> objects (setObject b objectId body) ! (objectId - 1) = Some body
      \<and> (\<forall>j < length (objects b). j \<noteq> objectId - 1 \<longrightarrow>
            objects (setObject b objectId body) ! j = objects b ! j)
      \<and> snd (addObject (setObject b objectId body) body') = snd (addObject b body')"
    if r: "1 \<le> objectId \<and> objectId \<le> length (objects b)"
  proof -
    from r have eq: "objects (setObject b objectId body) = (objects b)[objectId - 1 := Some body]"
      by (simp add: setObject_in_range)
    show ?thesis using r by (auto simp: eq addObject_def Let_def)
  qed
  show ?thesis using seq[of cs] adds add set by blast
qed

theorem builder_ids_dense_and_overwrite_frame_witness:
  "snd (runCalls newPdfBuilder
      [CallAddPlaceholderObject, CallAddRawObject ''<< /A 1 >>'', CallSetObject 1 [65, 66],
       CallAddObject [67]]) = [1, 2, 3]
   \<and> objects (fst (runCalls newPdfBuilder
      [CallAddPlaceholderObject, CallAddRawObject ''<< /A 1 >>'', CallSetObject 1 [65, 66],
       CallAddObject [67]])) = [Some [65, 66], Some (binary ''<< /A 1 >>''), Some [67]]
   \<and> objects (setObject \<lparr>objects = [Some [1], Some [2], Some [3]]\<rparr> 2 [9])
       = [Some [1], Some [9], Some [3]]"
  using builder_ids_dense_and_overwrite_frame
    [where cs = "[CallAddPlaceholderObject, CallAddRawObject ''<< /A 1 >>'',
        CallSetObject 1 [65, 66], CallAddObject [67]]"
      and objectId = 2 and b = "\<lparr>objects = [Some [1], Some [2], Some [3]]\<rparr>"
      and body = "[9]" and body' = "[]" and bodies = "[]"]
  by (simp add: setObject_def upt_conv_Cons)

text \<open>
  Claim C1. For a builder whose objects are the bodies \<open>bodies\<close> (no holes) and any root
  identifier, \<open>build\<close> succeeds and returns the header, the object blocks and the
  cross-reference text of \<open>xrefSectionSpec\<close>, in which row \<open>i\<close> is the recorded offset
  padded with zeros to ten characters followed by \<open>00000 n\<close>, the zeroth row is
  \<open>0000000000 65535 f\<close>, \<open>/Size\<close> is the object count plus one, \<open>/Root\<close> is the given
  identifier and the \<open>startxref\<close> value is the recorded start of the section. Each recorded
  offset is a true position: at the offset recorded for object \<open>i\<close> the output holds the
  bytes \<open>"{i} 0 obj"\<close>, the body and \<open>endobj\<close>, and at the \<open>startxref\<close> offset the
  cross-reference text begins. An offset below \<open>10^10\<close> is printed with exactly ten digits.
\<close>

theorem build_records_true_offsets:
  assumes "objects b = map Some bodies"
  shows "let n = length bodies;
             out = pdfHeader @ concat (documentBlocks bodies) @ binary (xrefSectionSpec bodies root)
         in build b root = Inr out
          \<and> (\<forall>i<n. take (length (documentBlocks bodies ! i)) (drop (objectPosition bodies i) out)
                     = binary (dec (i + 1) @ '' 0 obj'' @ [nl]) @ bodies ! i
                       @ binary ([nl] @ ''endobj'' @ [nl]))
          \<and> drop (objectPosition bodies n) out = binary (xrefSectionSpec bodies root)
          \<and> (\<forall>i<n. objectPosition bodies i < 10 ^ 10 \<longrightarrow>
                length (padStart 10 (CHR ''0'') (dec (objectPosition bodies i))) = 10)"
proof -
  let ?blocks = "documentBlocks bodies"
  let ?out = "pdfHeader @ concat ?blocks @ binary (xrefSectionSpec bodies root)"
  have len: "length ?blocks = length bodies" by (simp add: documentBlocks_def)
  have blk: "take (length (?blocks ! i)) (drop (objectPosition bodies i) ?out)
      = binary (dec (i + 1) @ '' 0 obj'' @ [nl]) @ bodies ! i @ binary ([nl] @ ''endobj'' @ [nl])"
    if "i < length bodies" for i
  proof -
    have "take (length (?blocks ! i)) (drop (objectPosition bodies i) ?out) = ?blocks ! i"
      unfolding objectPosition_def using that len by (simp only: block_at_position)
    also have "\<dots> = binary (dec (i + 1) @ '' 0 obj'' @ [nl]) @ bodies ! i
        @ binary ([nl] @ ''endobj'' @ [nl])"
      using that by (simp add: documentBlocks_def)
    finally show ?thesis .
  qed
  have xr: "drop (objectPosition bodies (length bodies)) ?out = binary (xrefSectionSpec bodies root)"
    by (simp add: objectPosition_def len)
  have pad: "length (padStart 10 (CHR ''0'') (dec k)) = 10" if "k < 10 ^ 10" for k
    using length_dec_le[of 10 k] that by (simp add: padStart_def)
  show ?thesis
    unfolding Let_def using build_all_some[OF assms, of root] blk xr pad by blast
qed

lemma build_example_layout:
  "pdfHeader @ concat (documentBlocks [binary ''<< >>'', binary ''abc''])
     @ binary (xrefSectionSpec [binary ''<< >>'', binary ''abc''] 2)
   = binary (''%PDF-1.4'' @ [nl] @ ''%'' @ replicate 4 (CHR 0xFF) @ [nl]
       @ ''1 0 obj'' @ [nl] @ ''<< >>'' @ [nl] @ ''endobj'' @ [nl]
       @ ''2 0 obj'' @ [nl] @ ''abc'' @ [nl] @ ''endobj'' @ [nl]
       @ ''xref'' @ [nl] @ ''0 3'' @ [nl]
       @ ''0000000000 65535 f '' @ [nl]
       @ ''0000000015 00000 n '' @ [nl]
       @ ''0000000036 00000 n '' @ [nl]
       @ ''trailer'' @ [nl] @ ''<< /Size 3 /Root 2 0 R >>'' @ [nl]
       @ ''startxref'' @ [nl] @ ''55'' @ [nl] @ ''%%EOF'' @ [nl])"
  by code_simp

theorem build_records_true_offsets_witness:
  "build \<lparr>objects = [Some (binary ''<< >>''), Some (binary ''abc'')]\<rparr> 2
     = Inr (binary (''%PDF-1.4'' @ [nl] @ ''%'' @ replicate 4 (CHR 0xFF) @ [nl]
         @ ''1 0 obj'' @ [nl] @ ''<< >>'' @ [nl] @ ''endobj'' @ [nl]
         @ ''2 0 obj'' @ [nl] @ ''abc'' @ [nl] @ ''endobj'' @ [nl]
         @ ''xref'' @ [nl] @ ''0 3'' @ [nl]
         @ ''0000000000 65535 f '' @ [nl]
         @ ''0000000015 00000 n '' @ [nl]
         @ ''0000000036 00000 n '' @ [nl]
         @ ''trailer'' @ [nl] @ ''<< /Size 3 /Root 2 0 R >>'' @ [nl]
         @ ''startxref'' @ [nl] @ ''55'' @ [nl] @ ''%%EOF'' @ [nl]))"
proof -
  let ?bodies = "[binary ''<< >>'', binary ''abc'']"
  let ?b = "\<lparr>objects = [Some (binary ''<< >>''), Some (binary ''abc'')]\<rparr>"
  have h: "objects ?b = map Some ?bodies" by simp
  from build_records_true_offsets[OF h, of 2]
  have "build ?b 2
      = Inr (pdfHeader @ concat (documentBlocks ?bodies) @ binary (xrefSectionSpec ?bodies 2))"
    unfolding Let_def by (rule conjunct1)
  then show ?thesis unfolding build_example_layout .
qed


section \<open>Properties of the raster decoder\<close>

text \<open>
  Claim C3 names \<open>left + up - upLeft\<close> as the third candidate. The function returns
  \<open>upLeft\<close> there: for \<open>(0, 10, 4)\<close> it returns 4, which is none of 0, 10 and 6.
\<close>

theorem paeth_third_candidate_counterexample:
  "paethPredictor 0 10 4 = 4 \<and> paethPredictor 0 10 4 \<notin> {0, 10, 0 + 10 - 4}"
  by (simp add: paethPredictor_def)

text \<open>
  Claim C3, as amended. With the estimate \<open>p = left + up - upLeft\<close>, the predictor returns
  one of \<open>left\<close>, \<open>up\<close>, \<open>upLeft\<close> whose distance from \<open>p\<close> is the smallest of the three
  distances: \<open>left\<close> whenever it is among the nearest, otherwise \<open>up\<close> whenever it is among
  the nearest, otherwise \<open>upLeft\<close>. This holds for all integers, the byte values among them.
\<close>

theorem paeth_nearest_to_estimate:
  "let p = left + up - upLeft;
       r = paethPredictor left up upLeft;
       nearest = min \<bar>p - left\<bar> (min \<bar>p - up\<bar> \<bar>p - upLeft\<bar>)
   in r \<in> {left, up, upLeft}
    \<and> \<bar>p - r\<bar> = nearest
    \<and> (\<bar>p - left\<bar> = nearest \<longrightarrow> r = left)
    \<and> (\<bar>p - left\<bar> \<noteq> nearest \<and> \<bar>p - up\<bar> = nearest \<longrightarrow> r = up)
    \<and> (\<bar>p - left\<bar> \<noteq> nearest \<and> \<bar>p - up\<bar> \<noteq> nearest \<longrightarrow> r = upLeft)"
  by (auto simp: paethPredictor_def Let_def min_def)

theorem paeth_nearest_to_estimate_witness:
  "paethPredictor 1 3 3 = 1 \<and> paethPredictor 0 10 4 = 4"
  using paeth_nearest_to_estimate[of 1 3 3] paeth_nearest_to_estimate[of 0 10 4]
  by (simp add: Let_def)































end
